theory Spec2Isabelle
  imports Main
begin

section \<open>JavaScript string operations used by the sources\<close>

text \<open>
  Source strings are modelled as \<^typ>\<open>string\<close>; a character is one code unit in the
  range U+0000..U+00FF. The functions below are the \<open>String.prototype\<close> methods the
  sources call, with the results JavaScript gives at the boundaries (an index that
  is not found is \<open>None\<close> where JavaScript returns \<open>-1\<close>).
\<close>

definition LF :: char where
  "LF = CHR 0x0A"

definition CR :: char where
  "CR = CHR 0x0D"

definition startsWith :: "string \<Rightarrow> string \<Rightarrow> bool" where
  "startsWith s p = (take (length p) s = p)"

definition endsWith :: "string \<Rightarrow> string \<Rightarrow> bool" where
  "endsWith s p = (length p \<le> length s \<and> drop (length s - length p) s = p)"

text \<open>\<open>s.indexOf(sub)\<close>: the first position at which \<open>sub\<close> starts.\<close>

fun indexOf :: "string \<Rightarrow> string \<Rightarrow> nat option" where
  "indexOf [] sub = (if sub = [] then Some 0 else None)"
| "indexOf (c # cs) sub =
     (if startsWith (c # cs) sub then Some 0 else map_option Suc (indexOf cs sub))"

definition str_includes :: "string \<Rightarrow> string \<Rightarrow> bool" where
  "str_includes s sub = (indexOf s sub \<noteq> None)"

text \<open>\<open>s.substr(start)\<close> and \<open>s.substr(start, len)\<close> for non-negative arguments.\<close>

definition substr_from :: "string \<Rightarrow> nat \<Rightarrow> string" where
  "substr_from s start = drop start s"

definition substr :: "string \<Rightarrow> nat \<Rightarrow> nat \<Rightarrow> string" where
  "substr s start len = take len (drop start s)"

text \<open>
  \<open>s.split(c)\<close> for a one-character separator. The result is never the empty array,
  so the first branch of the \<open>case\<close> is never taken.
\<close>

fun split_on :: "char \<Rightarrow> string \<Rightarrow> string list" where
  "split_on c [] = [[]]"
| "split_on c (x # xs) =
     (if x = c then [] # split_on c xs
      else (case split_on c xs of
              [] \<Rightarrow> [[x]]
            | l # ls \<Rightarrow> (x # l) # ls))"

text \<open>
  \<open>\s\<close> of a regular expression and the characters \<open>trim()\<close> removes, among the
  code units below U+0100: tab, line feed, vertical tab, form feed, carriage return,
  space and the no-break space.
\<close>

definition is_space :: "char \<Rightarrow> bool" where
  "is_space c = (c = CHR 0x09 \<or> c = CHR 0x0A \<or> c = CHR 0x0B \<or> c = CHR 0x0C \<or>
                 c = CHR 0x0D \<or> c = CHR 0x20 \<or> c = CHR 0xA0)"

definition trim :: "string \<Rightarrow> string" where
  "trim s = rev (dropWhile is_space (rev (dropWhile is_space s)))"

text \<open>\<open>n.toString()\<close> of a non-negative integer: its decimal digits.\<close>

definition digit_char :: "nat \<Rightarrow> char" where
  "digit_char d = ''0123456789'' ! d"

fun toString :: "nat \<Rightarrow> string" where
  "toString n = (if n < 10 then [digit_char n] else toString (n div 10) @ [digit_char (n mod 10)])"

section \<open>ProcessRunner: \<open>execute\<close> in proc.ts\<close>

text \<open>The result a subprocess resolves with.\<close>

record ExecutionResult =
  retc :: int
  stdout :: string
  stderr :: string

text \<open>A call on the attached \<open>OutputConsumer\<close>: \<open>output(line)\<close> or \<open>error(line)\<close>.\<close>

datatype consumer_call = Output string | ErrorLine string

text \<open>
  What the child process does: the data events of its two streams in arrival order,
  each with the text \<open>data.toString()\<close> gives, and the exit code its \<open>close\<close> event
  carries.
\<close>

datatype data_event = StdoutData string | StderrData string

record child_run =
  events :: "data_event list"
  exit_code :: int

text \<open>
  The four accumulators of \<open>execute\<close>, and the calls made so far on the consumer.
\<close>

record exec_state =
  stdout_acc :: string
  line_acc :: string
  stderr_acc :: string
  stderr_line_acc :: string
  calls :: "consumer_call list"

definition exec_init :: exec_state where
  "exec_init = \<lparr>stdout_acc = [], line_acc = [], stderr_acc = [], stderr_line_acc = [], calls = []\<rparr>"

text \<open>\<open>l.endsWith('\r') ? l.substr(0, l.length - 1) : l\<close>, mapped over every fragment.\<close>

definition strip_cr :: "string \<Rightarrow> string" where
  "strip_cr l = (if endsWith l [CR] then substr l 0 (length l - 1) else l)"

text \<open>
  The loop \<open>while (lines.length > 1)\<close>: each round completes the pending line with the
  first fragment, reports it and removes that fragment. It returns the accumulator,
  the fragments left (one, when it started with at least one) and the lines reported.
\<close>

fun drain :: "string \<Rightarrow> string list \<Rightarrow> string list \<Rightarrow> string \<times> string list \<times> string list" where
  "drain acc (l # l' # ls) out = drain [] (l' # ls) (out @ [acc @ l])"
| "drain acc ls out = (acc, ls, out)"

text \<open>
  The \<open>data\<close> handler of stdout. \<open>oc\<close> says whether an \<open>outputConsumer\<close> was passed.
  After the loop \<open>lines[0]\<close> is the last fragment; \<open>split\<close> never returns an empty
  array, so it exists.
\<close>

definition stdout_on_data :: "bool \<Rightarrow> exec_state \<Rightarrow> string \<Rightarrow> exec_state" where
  "stdout_on_data oc st str =
     (let lines = map strip_cr (split_on LF str);
          (acc, rest, out) = drain (line_acc st) lines []
      in st\<lparr>line_acc := acc @ hd rest,
             stdout_acc := stdout_acc st @ str,
             calls := calls st @ (if oc then map Output out else [])\<rparr>)"

definition stderr_on_data :: "bool \<Rightarrow> exec_state \<Rightarrow> string \<Rightarrow> exec_state" where
  "stderr_on_data oc st str =
     (let lines = map strip_cr (split_on LF str);
          (acc, rest, out) = drain (stderr_line_acc st) lines []
      in st\<lparr>stderr_line_acc := acc @ hd rest,
             stderr_acc := stderr_acc st @ str,
             calls := calls st @ (if oc then map ErrorLine out else [])\<rparr>)"

fun on_data :: "bool \<Rightarrow> exec_state \<Rightarrow> data_event \<Rightarrow> exec_state" where
  "on_data oc st (StdoutData str) = stdout_on_data oc st str"
| "on_data oc st (StderrData str) = stderr_on_data oc st str"

text \<open>The \<open>close\<close> handler: flush what is pending, then resolve.\<close>

definition on_close :: "bool \<Rightarrow> exec_state \<Rightarrow> int \<Rightarrow> consumer_call list \<times> ExecutionResult" where
  "on_close oc st code =
     (let c1 = (if line_acc st \<noteq> [] \<and> oc then [Output (line_acc st)] else []);
          c2 = (if stderr_line_acc st \<noteq> [] \<and> oc then [ErrorLine (stderr_line_acc st)] else [])
      in (calls st @ c1 @ c2,
          \<lparr>retc = code, stdout = stdout_acc st, stderr = stderr_acc st\<rparr>))"

text \<open>The handlers run over one child: the consumer's calls in order, and the resolved result.\<close>

definition run_handlers :: "bool \<Rightarrow> child_run \<Rightarrow> consumer_call list \<times> ExecutionResult" where
  "run_handlers oc run = on_close oc (foldl (on_data oc) exec_init (events run)) (exit_code run)"

text \<open>An error a promise is rejected with, or an exception, carrying its message.\<close>

datatype error = Error string

text \<open>
  \<open>execute(command, args, outputConsumer)\<close>. \<open>spawn\<close> is \<open>child_process.spawn\<close>: it fails
  (the \<open>error\<close> event, which rejects the result) or gives a child. \<open>win32\<close> is
  \<open>process.platform == 'win32'\<close>; elsewhere the command is wrapped in \<open>stdbuf\<close>.
\<close>

definition execute ::
  "bool \<Rightarrow> (string \<Rightarrow> string list \<Rightarrow> error + child_run) \<Rightarrow> string \<Rightarrow> string list \<Rightarrow> bool
     \<Rightarrow> error + consumer_call list \<times> ExecutionResult" where
  "execute win32 spawn command args oc =
     (let child =
            (if \<not> win32 then spawn ''stdbuf'' ([''-o'', ''0'', ''-e'', ''0''] @ [command] @ args)
             else spawn command args)
      in case child of
           Inl err \<Rightarrow> Inl err
         | Inr run \<Rightarrow> Inr (run_handlers oc run))"

text \<open>The lines \<open>output\<close> receives when the given chunks arrive on stdout and the process closes.\<close>

definition stdout_lines :: "string list \<Rightarrow> string list" where
  "stdout_lines chunks =
     concat (map (\<lambda>c. case c of Output l \<Rightarrow> [l] | ErrorLine l \<Rightarrow> [])
       (fst (run_handlers True \<lparr>events = map StdoutData chunks, exit_code = 0\<rparr>)))"

section \<open>TargetListParser in the legacy driver\<close>

text \<open>
  \<open>output(line)\<close> as a function from the target names collected so far to the new
  ones; \<open>generator\<close> is the constructor's argument. \<open>error(line)\<close> forwards to it.
  \<open>target_name.includes(' ')\<close> holds exactly when \<open>target_name.indexOf(' ')\<close> finds a
  position, so the test and the cut are one \<open>case\<close>; likewise \<open>colpos === -1\<close>.
\<close>

definition tlp_output :: "string \<Rightarrow> string list \<Rightarrow> string \<Rightarrow> string list" where
  "tlp_output generator targetNames line =
     (if endsWith generator ''Makefiles'' then
        (if \<not> startsWith line ''...'' then targetNames
         else
           (let target_name = substr_from line 4;
                target_name' =
                  (case indexOf target_name '' '' of
                     Some i \<Rightarrow> substr target_name 0 i
                   | None \<Rightarrow> target_name)
            in targetNames @ [target_name']))
      else
        (case indexOf line '': '' of
           None \<Rightarrow> targetNames
         | Some colpos \<Rightarrow>
             if str_includes line ''All primary targets'' then targetNames
             else targetNames @ [substr line 0 colpos]))"

definition tlp_error :: "string \<Rightarrow> string list \<Rightarrow> string \<Rightarrow> string list" where
  "tlp_error generator targetNames line = tlp_output generator targetNames line"

fun tlp_consume :: "string \<Rightarrow> string list \<Rightarrow> consumer_call \<Rightarrow> string list" where
  "tlp_consume generator targetNames (Output line) = tlp_output generator targetNames line"
| "tlp_consume generator targetNames (ErrorLine line) = tlp_error generator targetNames line"

text \<open>A fresh parser fed the given lines through \<open>output\<close>: its \<open>targetNames\<close>.\<close>

definition TargetListParser :: "string \<Rightarrow> string list \<Rightarrow> string list" where
  "TargetListParser generator lines = foldl (tlp_output generator) [] lines"

section \<open>LegacyCMakeDriver\<close>

datatype linkage = Static | Shared

text \<open>
  A configure-time setting \<open>{key, value}\<close>; the type of setting values is left open.
  \<open>util.cmakeify\<close> turns a value into \<open>{type, value}\<close>.
\<close>

record 'v ConfigureArguments =
  arg_key :: string
  arg_value :: 'v

record cmake_value =
  cv_type :: string
  cv_value :: string

text \<open>
  A kit, as far as the driver reads it: \<open>name\<close>, the discriminator \<open>type\<close>, and
  \<open>util.objectPairs(kit.compilers)\<close> (language and compiler path, in the object's order).
\<close>

record kit =
  kit_name :: string
  kit_type :: string
  compilers :: "(string \<times> string) list"

text \<open>\<open>VariantConfigurationOptions\<close>: a field that is not set is \<open>None\<close>.\<close>

record 'v VariantConfigurationOptions =
  description :: string
  opt_buildType :: "string option"
  opt_settings :: "'v ConfigureArguments list option"
  opt_linkage :: "linkage option"

text \<open>\<open>{type: 'named', name: t}\<close>\<close>

datatype NamedTarget = Named string

text \<open>
  The fields of \<open>LegacyCMakeDriver\<close>, and \<open>_kit\<close> of its base class, which
  \<open>configure\<close> reads.
\<close>

record 'v driver =
  needsReconfigure :: bool
  buildType :: string
  configArgs :: "'v ConfigureArguments list"
  linkage :: linkage
  targets :: "NamedTarget list"
  kit :: "kit option"

text \<open>The field initialisers of the class.\<close>

definition driver_init :: "'v driver" where
  "driver_init =
     \<lparr>needsReconfigure = True, buildType = ''Debug'', configArgs = [], linkage = Static,
      targets = [], kit = None\<rparr>"

text \<open>
  What the collaborators of the driver answer while one operation runs: the
  pre-configure hook, the file system (\<open>fs.exists\<close>, \<open>fs.rmdir\<close>, \<open>fs.unlink\<close>; a
  removal gives \<open>None\<close> or the error it fails with), the kit-change policy, the
  directories and flags of the base class, \<open>config\<close>, the detected generator name,
  \<open>util.cmakeify\<close>, \<open>util.normalizePath\<close>, \<open>path.join\<close>, the platform, and the
  external tool behind \<open>child_process.spawn\<close>.
\<close>

record 'v env =
  beforeConfigure :: bool
  cacheExists :: bool
  cmakeFilesExists :: bool
  kitChangeNeedsClean :: "kit \<Rightarrow> bool"
  rmdir :: "string \<Rightarrow> error option"
  unlink :: "string \<Rightarrow> error option"
  cmakeFlags :: "string list"
  sourceDir :: string
  binaryDir :: string
  cachePath :: string
  cmakePath :: string
  numJobs :: nat
  generatorName :: "string option"
  cmakeify :: "'v \<Rightarrow> cmake_value"
  normalizePath :: "string \<Rightarrow> string"
  path_join :: "string \<Rightarrow> string \<Rightarrow> string"
  win32 :: bool
  spawn :: "string \<Rightarrow> string list \<Rightarrow> error + child_run"

text \<open>One use of ProcessRunner: the command and the argument list passed to it.\<close>

type_synonym invocation = "string \<times> string list"

text \<open>
  Modelled from the spec: \<open>CMakeDriver.executeCommand\<close> (the base class is not among
  the sources) invokes ProcessRunner with the command and the arguments it is given.
\<close>

definition executeCommand ::
  "'v env \<Rightarrow> string \<Rightarrow> string list \<Rightarrow> bool \<Rightarrow> error + consumer_call list \<times> ExecutionResult" where
  "executeCommand env command args oc = execute (win32 env) (spawn env) command args oc"

text \<open>
  Modelled from the spec: \<open>CMakeDriver._setBaseKit\<close> (the base class is not among the
  sources) adopts the kit.
\<close>

definition setBaseKit :: "kit \<Rightarrow> 'v driver \<Rightarrow> 'v driver" where
  "setBaseKit k d = d\<lparr>kit := Some k\<rparr>"

text \<open>
  \<open>setKit\<close>: the flag is set first; a failing \<open>fs.rmdir\<close> rejects, and the statements
  after it do not run.
\<close>

definition setKit :: "'v env \<Rightarrow> kit \<Rightarrow> 'v driver \<Rightarrow> (error + unit) \<times> 'v driver" where
  "setKit env k d =
     (let d1 = d\<lparr>needsReconfigure := True\<rparr>;
          need_clean = kitChangeNeedsClean env k
      in if need_clean then
           (case rmdir env (binaryDir env) of
              Some err \<Rightarrow> (Inl err, d1)
            | None \<Rightarrow> (Inr (), setBaseKit k d1))
         else (Inr (), setBaseKit k d1))"

text \<open>
  \<open>a || b\<close> on an optional string (unset and the empty string are falsy), and on an
  optional array or linkage (only unset is falsy).
\<close>

definition or_string :: "string option \<Rightarrow> string \<Rightarrow> string" where
  "or_string a b = (case a of None \<Rightarrow> b | Some s \<Rightarrow> if s = [] then b else s)"

definition or_value :: "'a option \<Rightarrow> 'a \<Rightarrow> 'a" where
  "or_value a b = (case a of None \<Rightarrow> b | Some x \<Rightarrow> x)"

definition setVariantOptions :: "'v VariantConfigurationOptions \<Rightarrow> 'v driver \<Rightarrow> 'v driver" where
  "setVariantOptions opts d =
     d\<lparr>buildType := or_string (opt_buildType opts) (buildType d),
       configArgs := or_value (opt_settings opts) (configArgs d),
       linkage := or_value (opt_linkage opts) (linkage d)\<rparr>"

text \<open>
  How an asynchronous operation of the driver ends: its promise resolves with a value,
  is rejected with an error, or never settles.
\<close>

datatype 'a outcome = Resolved 'a | Rejected error | Pending

text \<open>
  The target names a parser has collected after the given calls. The parser of
  \<open>_refreshTargets\<close> is built with \<open>(await this.generatorName)!\<close>: when no generator is
  detected its \<open>generator\<close> is \<open>null\<close>, and the first line it is handed throws at
  \<open>this.generator.endsWith\<close>, inside the \<open>data\<close> or \<open>close\<close> handler of \<open>execute\<close>. The
  exception leaves the handler, \<open>resolve\<close> is not reached, and the result never
  settles: that is \<open>None\<close>.
\<close>

definition parse_targets :: "string option \<Rightarrow> consumer_call list \<Rightarrow> string list option" where
  "parse_targets gen cs =
     (case gen of
        Some generator \<Rightarrow> Some (foldl (tlp_consume generator) [] cs)
      | None \<Rightarrow> if cs = [] then Some [] else None)"

definition refreshTargets_args :: "'v env \<Rightarrow> 'v driver \<Rightarrow> string list" where
  "refreshTargets_args env d =
     [''--build'', binaryDir env, ''--config'', buildType d, ''--target'', ''help'']"

text \<open>\<open>_refreshTargets\<close>: how it ends, the driver then, and the use of ProcessRunner it made.\<close>

definition refreshTargets :: "'v env \<Rightarrow> 'v driver \<Rightarrow> unit outcome \<times> 'v driver \<times> invocation list" where
  "refreshTargets env d =
     (let args = refreshTargets_args env d;
          log = [(cmakePath env, args)]
      in case executeCommand env (cmakePath env) args True of
           Inl err \<Rightarrow> (Rejected err, d, log)
         | Inr (cs, res) \<Rightarrow>
             (case parse_targets (generatorName env) cs of
                None \<Rightarrow> (Pending, d, log)
              | Some names \<Rightarrow> (Resolved (), d\<lparr>targets := map Named names\<rparr>, log)))"

text \<open>
  The argument list \<open>configure\<close> builds, in the order of its \<open>push\<close> calls; it throws
  \<open>No kit is set!\<close> when there is no kit.
\<close>

definition setting_arg :: "'v env \<Rightarrow> 'v ConfigureArguments \<Rightarrow> string" where
  "setting_arg env setting =
     (let cmake_value = cmakeify env (arg_value setting)
      in arg_key setting @ '':'' @ cv_type cmake_value @ ''='' @ cv_value cmake_value)"

definition compiler_arg :: "string \<times> string \<Rightarrow> string" where
  "compiler_arg p = (case p of (lang, compiler) \<Rightarrow> ''-DCMAKE_'' @ lang @ ''_COMPILER:FILEPATH='' @ compiler)"

definition configure_args :: "'v env \<Rightarrow> 'v driver \<Rightarrow> error + string list" where
  "configure_args env d =
     (let args0 = (if \<not> cacheExists env then [''-G'' @ ''Ninja''] else []);
          args1 = args0 @ map (setting_arg env) (configArgs d);
          args2 = args1 @ [''-DCMAKE_BUILD_TYPE:STRING='' @ buildType d]
      in case kit d of
           None \<Rightarrow> Inl (Error ''No kit is set!'')
         | Some k \<Rightarrow>
             (let args3 = args2 @ (if kit_type k = ''compilerKit'' then map compiler_arg (compilers k) else []);
                  args4 = args3 @ cmakeFlags env;
                  args5 = args4 @ [''-H'' @ normalizePath env (sourceDir env)];
                  bindir = normalizePath env (binaryDir env)
              in Inr (args5 @ [''-B'' @ bindir])))"

text \<open>
  \<open>configure\<close>: the exit code it resolves with (or how else it ends), the driver
  then, and the uses of ProcessRunner it made, in order. \<open>_reloadCMakeCache\<close> of the
  base class touches none of the fields modelled here.
\<close>

definition configure :: "'v env \<Rightarrow> bool \<Rightarrow> 'v driver \<Rightarrow> int outcome \<times> 'v driver \<times> invocation list" where
  "configure env oc d =
     (if \<not> beforeConfigure env then (Resolved (- 1), d, [])
      else
        (case configure_args env d of
           Inl err \<Rightarrow> (Rejected err, d, [])
         | Inr args \<Rightarrow>
             (case executeCommand env (cmakePath env) args oc of
                Inl err \<Rightarrow> (Rejected err, d, [(cmakePath env, args)])
              | Inr (cs, res) \<Rightarrow>
                  (let d1 = (if retc res = 0 then d\<lparr>needsReconfigure := False\<rparr> else d)
                   in case refreshTargets env d1 of
                        (Resolved u, d2, log) \<Rightarrow> (Resolved (retc res), d2, (cmakePath env, args) # log)
                      | (Rejected err, d2, log) \<Rightarrow> (Rejected err, d2, (cmakePath env, args) # log)
                      | (Pending, d2, log) \<Rightarrow> (Pending, d2, (cmakePath env, args) # log)))))"

text \<open>
  \<open>cleanConfigure\<close>: \<open>env0\<close> answers before the removals, \<open>env\<close> the \<open>configure\<close> that follows.
\<close>

definition cleanConfigure ::
  "'v env \<Rightarrow> 'v env \<Rightarrow> bool \<Rightarrow> 'v driver \<Rightarrow> int outcome \<times> 'v driver \<times> invocation list" where
  "cleanConfigure env0 env oc d =
     (let build_dir = binaryDir env0;
          cache = cachePath env0;
          cmake_files = path_join env0 build_dir ''CMakeFiles'';
          r1 = (if cacheExists env0 then unlink env0 cache else None)
      in case r1 of
           Some err \<Rightarrow> (Rejected err, d, [])
         | None \<Rightarrow>
             (case (if cmakeFilesExists env0 then rmdir env0 cmake_files else None) of
                Some err \<Rightarrow> (Rejected err, d, [])
              | None \<Rightarrow> configure env oc d))"

text \<open>\<open>/(Unix|MinGW) Makefiles|Ninja/.test(gen)\<close>\<close>

definition makefiles_or_ninja :: "string \<Rightarrow> bool" where
  "makefiles_or_ninja gen =
     (str_includes gen ''Unix Makefiles'' \<or> str_includes gen ''MinGW Makefiles'' \<or>
      str_includes gen ''Ninja'')"

text \<open>
  The generator-specific arguments of \<open>build\<close>; \<open>!gen\<close> holds for \<open>null\<close> and for the
  empty string.
\<close>

definition generator_args :: "'v env \<Rightarrow> string \<Rightarrow> string list" where
  "generator_args env target =
     (case generatorName env of
        None \<Rightarrow> []
      | Some gen \<Rightarrow>
          if gen = [] then []
          else if makefiles_or_ninja gen \<and> target \<noteq> ''clean''
          then [''-j'', toString (numJobs env)]
          else if str_includes gen ''Visual Studio''
          then [''/m'', ''/property:GenerateFullPaths=true'']
          else [])"

definition build_args :: "'v env \<Rightarrow> 'v driver \<Rightarrow> string \<Rightarrow> string list" where
  "build_args env d target =
     [''--build'', binaryDir env, ''--config'', buildType d, ''--target'', target, ''--''] @
     generator_args env target"

text \<open>
  \<open>build\<close>: it resolves with \<open>None\<close> (the \<open>null\<close> it returns when the hook fails) or
  with the result of the subprocess.
\<close>

definition build ::
  "'v env \<Rightarrow> string \<Rightarrow> bool \<Rightarrow> 'v driver
     \<Rightarrow> ExecutionResult option outcome \<times> 'v driver \<times> invocation list" where
  "build env target oc d =
     (if \<not> beforeConfigure env then (Resolved None, d, [])
      else
        (let args = build_args env d target
         in case executeCommand env (cmakePath env) args oc of
              Inl err \<Rightarrow> (Rejected err, d, [(cmakePath env, args)])
            | Inr (cs, res) \<Rightarrow>
                (case refreshTargets env d of
                   (Resolved u, d2, log) \<Rightarrow> (Resolved (Some res), d2, (cmakePath env, args) # log)
                 | (Rejected err, d2, log) \<Rightarrow> (Rejected err, d2, (cmakePath env, args) # log)
                 | (Pending, d2, log) \<Rightarrow> (Pending, d2, (cmakePath env, args) # log))))"

text \<open>
  \<open>create\<close>: the instance is built and \<open>_init\<close> discovers the targets when a cache exists.
\<close>

definition create :: "'v env \<Rightarrow> unit outcome \<times> 'v driver \<times> invocation list" where
  "create env =
     (if cacheExists env then refreshTargets env driver_init else (Resolved (), driver_init, []))"

text \<open>The operations of a driver, each with the environment it runs in.\<close>

datatype 'v operation =
    SetKit "'v env" kit
  | SetVariantOptions "'v VariantConfigurationOptions"
  | Configure "'v env" bool
  | CleanConfigure "'v env" "'v env" bool
  | Build "'v env" string bool

fun step :: "'v driver \<Rightarrow> 'v operation \<Rightarrow> 'v driver" where
  "step d (SetKit env k) = snd (setKit env k d)"
| "step d (SetVariantOptions opts) = setVariantOptions opts d"
| "step d (Configure env oc) = fst (snd (configure env oc d))"
| "step d (CleanConfigure env0 env oc) = fst (snd (cleanConfigure env0 env oc d))"
| "step d (Build env target oc) = fst (snd (build env target oc d))"

definition run_operations :: "'v driver \<Rightarrow> 'v operation list \<Rightarrow> 'v driver" where
  "run_operations d ops = foldl step d ops"

text \<open>
  The exit code of the external tool in one \<open>configure\<close>, when the tool ran to its end.
\<close>

definition tool_exit_code :: "'v env \<Rightarrow> bool \<Rightarrow> 'v driver \<Rightarrow> int option" where
  "tool_exit_code env oc d =
     (if \<not> beforeConfigure env then None
      else
        (case configure_args env d of
           Inl err \<Rightarrow> None
         | Inr args \<Rightarrow>
             (case executeCommand env (cmakePath env) args oc of
                Inl err \<Rightarrow> None
              | Inr (cs, res) \<Rightarrow> Some (retc res))))"

text \<open>Whether an operation is a configure whose external tool exits with code 0.\<close>

fun configure_succeeds :: "'v driver \<Rightarrow> 'v operation \<Rightarrow> bool" where
  "configure_succeeds d (Configure env oc) = (tool_exit_code env oc d = Some 0)"
| "configure_succeeds d (CleanConfigure env0 env oc) =
     ((if cacheExists env0 then unlink env0 (cachePath env0) else None) = None \<and>
      (if cmakeFilesExists env0 then rmdir env0 (path_join env0 (binaryDir env0) ''CMakeFiles'') else None) = None \<and>
      tool_exit_code env oc d = Some 0)"
| "configure_succeeds d other = False"

fun is_setKit :: "'v operation \<Rightarrow> bool" where
  "is_setKit (SetKit env k) = True"
| "is_setKit other = False"

section \<open>CMakeCache\<close>

text \<open>\<open>api.CacheEntryType\<close>\<close>

datatype CacheEntryType =
  TBool | TString | TPath | TFilePath | TInternal | TUninitialized | TStatic

text \<open>
  \<open>typemap[typename]\<close>. \<open>typemap\<close> is an object literal, so a lookup also finds the
  properties every object inherits from \<open>Object.prototype\<close>: for those names the
  result is a function or an object, and not \<open>undefined\<close>.
\<close>

datatype type_lookup = Mapped CacheEntryType | Inherited string | Undefined

definition object_prototype_keys :: "string list" where
  "object_prototype_keys =
     [''constructor'', ''__defineGetter__'', ''__defineSetter__'', ''hasOwnProperty'',
      ''__lookupGetter__'', ''__lookupSetter__'', ''isPrototypeOf'', ''propertyIsEnumerable'',
      ''toString'', ''valueOf'', ''__proto__'', ''toLocaleString'']"

definition typemap :: "string \<Rightarrow> type_lookup" where
  "typemap typename =
     (if typename = ''BOOL'' then Mapped TBool
      else if typename = ''STRING'' then Mapped TString
      else if typename = ''PATH'' then Mapped TPath
      else if typename = ''FILEPATH'' then Mapped TFilePath
      else if typename = ''INTERNAL'' then Mapped TInternal
      else if typename = ''UNINITIALIZED'' then Mapped TUninitialized
      else if typename = ''STATIC'' then Mapped TStatic
      else if typename \<in> set object_prototype_keys then Inherited typename
      else Undefined)"

text \<open>The value of an entry: a boolean for \<open>Bool\<close>, the raw string otherwise.\<close>

datatype entry_value = BoolValue bool | StringValue string

record Entry =
  entry_type :: type_lookup
  entry_docs :: string
  entry_key :: string
  entry_value :: entry_value
  entry_advanced :: bool

text \<open>The constructor of \<open>Entry\<close>; \<open>isTruthy\<close> is \<open>util.isTruthy\<close>.\<close>

definition new_Entry ::
  "(string \<Rightarrow> bool) \<Rightarrow> string \<Rightarrow> string \<Rightarrow> type_lookup \<Rightarrow> string \<Rightarrow> bool \<Rightarrow> Entry" where
  "new_Entry isTruthy k v t docs advanced =
     \<lparr>entry_type = t, entry_docs = docs, entry_key = k,
      entry_value = (if t = Mapped TBool then BoolValue (isTruthy v) else StringValue v),
      entry_advanced = advanced\<rparr>"

text \<open>
  \<open>Map.prototype.set\<close> on the entries in insertion order: a key that is present keeps
  its place, a new key goes last.
\<close>

fun map_set :: "string \<Rightarrow> Entry \<Rightarrow> (string \<times> Entry) list \<Rightarrow> (string \<times> Entry) list" where
  "map_set k v [] = [(k, v)]"
| "map_set k v (p # ps) = (if fst p = k then (k, v) # ps else p # map_set k v ps)"

text \<open>\<open>content.split(/\r\n|\n|\r/)\<close>\<close>

fun split_newlines :: "string \<Rightarrow> string list" where
  "split_newlines [] = [[]]"
| "split_newlines (c # cs) =
     (if c = CR then
        (case cs of
           [] \<Rightarrow> [] # split_newlines cs
         | c' # cs' \<Rightarrow> if c' = LF then [] # split_newlines cs' else [] # split_newlines cs)
      else if c = LF then [] # split_newlines cs
      else (case split_newlines cs of
              [] \<Rightarrow> [[c]]
            | l # ls \<Rightarrow> (c # l) # ls))"

text \<open>\<open>/^\s*#/.test(line)\<close>\<close>

definition is_hash_comment :: "string \<Rightarrow> bool" where
  "is_hash_comment line = startsWith (dropWhile is_space line) ''#''"

definition cache_lines :: "string \<Rightarrow> string list" where
  "cache_lines content =
     filter (\<lambda>line. \<not> is_hash_comment line) (filter (\<lambda>line. length line \<noteq> 0) (split_newlines content))"

text \<open>
  \<open>/^(.*?):(.*?)=(.*)/.exec(line)\<close> on a line without line terminators. The lazy
  groups make the first \<open>:\<close> and the first \<open>=\<close> after it the delimiters; when no \<open>=\<close>
  follows the first \<open>:\<close>, none follows a later one, and there is no match.
\<close>

definition match_entry :: "string \<Rightarrow> (string \<times> string \<times> string) option" where
  "match_entry line =
     (case indexOf line '':'' of
        None \<Rightarrow> None
      | Some i \<Rightarrow>
          (let rest = drop (Suc i) line
           in case indexOf rest ''='' of
                None \<Rightarrow> None
              | Some j \<Rightarrow> Some (take i line, take j rest, drop (Suc j) rest)))"

text \<open>What \<open>rollbar.error\<close> is called with.\<close>

datatype report =
    FailedToReadLine string
  | UnknownType string string

text \<open>The variables of the loop of \<open>parseCache\<close>, and the reports made so far.\<close>

record parse_state =
  entries :: "(string \<times> Entry) list"
  docs_acc :: string
  reports :: "report list"

text \<open>One round of the loop \<open>for (const line of lines)\<close>.\<close>

definition parse_line :: "(string \<Rightarrow> bool) \<Rightarrow> parse_state \<Rightarrow> string \<Rightarrow> parse_state" where
  "parse_line isTruthy st line =
     (if startsWith line ''//'' then st\<lparr>docs_acc := docs_acc st @ drop 2 line @ '' ''\<rparr>
      else
        (case match_entry line of
           None \<Rightarrow> st\<lparr>reports := reports st @ [FailedToReadLine line]\<rparr>
         | Some (name, typename, valuestr) \<Rightarrow>
             if name = [] \<or> typename = [] then st
             else if endsWith name ''-ADVANCED'' \<and> valuestr = ''1'' then st
             else
               (let docs = trim (docs_acc st);
                    st1 = st\<lparr>docs_acc := []\<rparr>
                in case typemap typename of
                     Undefined \<Rightarrow> st1\<lparr>reports := reports st1 @ [UnknownType name typename]\<rparr>
                   | t \<Rightarrow> st1\<lparr>entries := map_set name (new_Entry isTruthy name valuestr t docs False) (entries st1)\<rparr>)))"

definition parse_init :: parse_state where
  "parse_init = \<lparr>entries = [], docs_acc = [], reports = []\<rparr>"

definition parse_lines :: "(string \<Rightarrow> bool) \<Rightarrow> parse_state \<Rightarrow> string list \<Rightarrow> parse_state" where
  "parse_lines isTruthy st lines = foldl (parse_line isTruthy) st lines"

text \<open>\<open>parseCache\<close>: the entries it returns, and the reports it made on the way.\<close>

definition parseCache :: "(string \<Rightarrow> bool) \<Rightarrow> string \<Rightarrow> (string \<times> Entry) list \<times> report list" where
  "parseCache isTruthy content =
     (let st = parse_lines isTruthy parse_init (cache_lines content)
      in (entries st, reports st))"

text \<open>
  The file system \<open>fromPath\<close> sees: whether a path exists, and what reading it gives.
\<close>

record file_system =
  fs_exists :: "string \<Rightarrow> bool"
  fs_readFile :: "string \<Rightarrow> error + string"

record CMakeCache =
  cache_path :: string
  cache_exists :: bool
  cache_entries :: "(string \<times> Entry) list"

definition fromPath :: "(string \<Rightarrow> bool) \<Rightarrow> file_system \<Rightarrow> string \<Rightarrow> error + CMakeCache" where
  "fromPath isTruthy fs path =
     (let exists = fs_exists fs path
      in if exists then
           (case fs_readFile fs path of
              Inl err \<Rightarrow> Inl err
            | Inr content \<Rightarrow>
                Inr \<lparr>cache_path = path, cache_exists = exists,
                     cache_entries = fst (parseCache isTruthy content)\<rparr>)
         else Inr \<lparr>cache_path = path, cache_exists = exists, cache_entries = []\<rparr>)"

text \<open>\<open>allEntries\<close> and \<open>get\<close>.\<close>

definition allEntries :: "CMakeCache \<Rightarrow> Entry list" where
  "allEntries c = map snd (cache_entries c)"

definition cache_get :: "CMakeCache \<Rightarrow> string \<Rightarrow> Entry option" where
  "cache_get c k = map_of (cache_entries c) k"

section \<open>Concrete inputs\<close>

text \<open>
  An environment, a kit and a truthiness parse for the concrete runs below: no cache
  yet, every removal succeeds, the external tool prints nothing and exits with 0.
\<close>

definition example_env :: "string env" where
  "example_env =
     \<lparr>beforeConfigure = True, cacheExists = False, cmakeFilesExists = False,
      kitChangeNeedsClean = (\<lambda>k. True), rmdir = (\<lambda>p. None), unlink = (\<lambda>p. None),
      cmakeFlags = [], sourceDir = ''/src'', binaryDir = ''/build'',
      cachePath = ''/build/CMakeCache.txt'', cmakePath = ''cmake'', numJobs = 4,
      generatorName = Some ''Ninja'',
      cmakeify = (\<lambda>v. \<lparr>cv_type = ''STRING'', cv_value = v\<rparr>),
      normalizePath = (\<lambda>p. p), path_join = (\<lambda>a b. a @ ''/'' @ b), win32 = False,
      spawn = (\<lambda>command args. Inr \<lparr>events = [], exit_code = 0\<rparr>)\<rparr>"

definition example_kit :: kit where
  "example_kit = \<lparr>kit_name = ''GCC'', kit_type = ''compilerKit'', compilers = [(''CXX'', ''/usr/bin/g++'')]\<rparr>"

definition example_isTruthy :: "string \<Rightarrow> bool" where
  "example_isTruthy v = (v = ''ON'')"



text \<open>The same environment with an external tool that exits with code 1.\<close>

definition failing_env :: "string env" where
  "failing_env = example_env\<lparr>spawn := (\<lambda>command args. Inr \<lparr>events = [], exit_code = 1\<rparr>)\<rparr>"

section \<open>TargetListParser: Makefile generators\<close>

lemma indexOf_char_takeWhile:
  "indexOf s [c] = (if c \<in> set s then Some (length (takeWhile (\<lambda>x. x \<noteq> c) s)) else None)"
  by (induction s) (auto simp: startsWith_def)

lemma substr_indexOf_char:
  "(case indexOf s [c] of Some i \<Rightarrow> substr s 0 i | None \<Rightarrow> s) = takeWhile (\<lambda>x. x \<noteq> c) s"
proof (cases "c \<in> set s")
  case True
  then show ?thesis
    using takeWhile_eq_take [of "\<lambda>x. x \<noteq> c" s]
    by (simp add: indexOf_char_takeWhile substr_def)
next
  case False
  then have eq: "takeWhile (\<lambda>x. x \<noteq> c) s = s"
    by (auto simp: takeWhile_eq_all_conv)
  from False have "indexOf s [c] = None"
    by (simp add: indexOf_char_takeWhile)
  then show ?thesis
    by (simp only: option.case eq)
qed

lemma tlp_output_makefiles:
  "endsWith generator ''Makefiles'' \<Longrightarrow>
   tlp_output generator names line =
     (if startsWith line ''...'' then names @ [takeWhile (\<lambda>c. c \<noteq> CHR '' '') (drop 4 line)] else names)"
  by (simp add: tlp_output_def substr_from_def Let_def substr_indexOf_char [of _ "CHR '' ''"])

lemma foldl_tlp_makefiles:
  "endsWith generator ''Makefiles'' \<Longrightarrow>
   foldl (tlp_output generator) names lines =
     names @ map (\<lambda>l. takeWhile (\<lambda>c. c \<noteq> CHR '' '') (drop 4 l)) (filter (\<lambda>l. startsWith l ''...'') lines)"
  by (induction lines arbitrary: names) (simp_all add: tlp_output_makefiles)

text \<open>
  C4 (as the code has it). For a generator whose name ends in \<open>Makefiles\<close>, the
  parser keeps exactly the lines that start with \<open>...\<close>, in order, and the target
  name of such a line is every character from index 4 on, cut before the first
  space if there is one. Fed \<open>"... all"\<close>, \<open>"... clean"\<close>, \<open>"... my_target"\<close> (one space
  after the dots) it yields \<open>["all", "clean", "my_target"]\<close>.
\<close>

theorem TargetListParser_makefiles:
  "endsWith generator ''Makefiles'' \<Longrightarrow>
   TargetListParser generator lines =
     map (\<lambda>l. takeWhile (\<lambda>c. c \<noteq> CHR '' '') (drop 4 l)) (filter (\<lambda>l. startsWith l ''...'') lines)"
  by (simp add: TargetListParser_def foldl_tlp_makefiles)

theorem TargetListParser_makefiles_witness:
  "endsWith ''Unix Makefiles'' ''Makefiles'' \<and>
   TargetListParser ''Unix Makefiles'' [''... all'', ''... clean'', ''... my_target''] = [''all'', ''clean'', ''my_target'']"
  using TargetListParser_makefiles [of "''Unix Makefiles''" "[''... all'', ''... clean'', ''... my_target'']"]
  by (simp add: endsWith_def startsWith_def)

text \<open>
  C4 as stated fails on its own example: with two spaces after the dots, index 4 is
  a space, so the name is cut to the empty string.
\<close>

theorem TargetListParser_two_spaces_counterexample:
  "TargetListParser ''Unix Makefiles'' [''...  all'', ''... clean'', ''...  my_target''] = [[], ''clean'', []]"
  by (simp add: TargetListParser_def tlp_output_def endsWith_def startsWith_def substr_from_def substr_def)


section \<open>CMakeCache.fromPath\<close>

text \<open>
  C7. When no file exists at the path, \<open>fromPath\<close> returns (it does not fail) a
  cache whose \<open>exists\<close> flag is false and whose entries are empty.
\<close>

theorem fromPath_missing_file:
  "\<not> fs_exists fs path \<Longrightarrow>
     fromPath isTruthy fs path = Inr \<lparr>cache_path = path, cache_exists = False, cache_entries = []\<rparr>"
  by (simp add: fromPath_def)

theorem fromPath_missing_file_witness:
  "\<not> fs_exists \<lparr>fs_exists = (\<lambda>p. False), fs_readFile = (\<lambda>p. Inl (Error ''ENOENT''))\<rparr> ''/build/CMakeCache.txt'' \<and>
   fromPath example_isTruthy \<lparr>fs_exists = (\<lambda>p. False), fs_readFile = (\<lambda>p. Inl (Error ''ENOENT''))\<rparr> ''/build/CMakeCache.txt''
     = Inr \<lparr>cache_path = ''/build/CMakeCache.txt'', cache_exists = False, cache_entries = []\<rparr>"
  using fromPath_missing_file [of "\<lparr>fs_exists = (\<lambda>p. False), fs_readFile = (\<lambda>p. Inl (Error ''ENOENT''))\<rparr>" "''/build/CMakeCache.txt''" example_isTruthy]
  by simp

section \<open>setKit and setVariantOptions\<close>

text \<open>
  C9. When the kit change needs a clean and removing the binary directory fails,
  \<open>setKit\<close> fails with that error, the kit is the one held before, and
  \<open>needsReconfigure\<close> is true all the same: the flag was set before the removal.
\<close>

theorem setKit_failed_removal:
  assumes "kitChangeNeedsClean env k" and "rmdir env (binaryDir env) = Some err"
  shows "setKit env k d = (Inl err, d\<lparr>needsReconfigure := True\<rparr>) \<and>
         needsReconfigure (snd (setKit env k d)) \<and>
         kit (snd (setKit env k d)) = kit d"
  using assms by (simp add: setKit_def)

theorem setKit_failed_removal_witness:
  "kitChangeNeedsClean (example_env\<lparr>rmdir := (\<lambda>p. Some (Error ''EACCES''))\<rparr>) example_kit \<and>
   rmdir (example_env\<lparr>rmdir := (\<lambda>p. Some (Error ''EACCES''))\<rparr>)
     (binaryDir (example_env\<lparr>rmdir := (\<lambda>p. Some (Error ''EACCES''))\<rparr>)) = Some (Error ''EACCES'') \<and>
   setKit (example_env\<lparr>rmdir := (\<lambda>p. Some (Error ''EACCES''))\<rparr>) example_kit
       (driver_init\<lparr>needsReconfigure := False\<rparr>)
     = (Inl (Error ''EACCES''), driver_init) \<and>
   kit (snd (setKit (example_env\<lparr>rmdir := (\<lambda>p. Some (Error ''EACCES''))\<rparr>) example_kit
       (driver_init\<lparr>needsReconfigure := False\<rparr>))) = None"
  using setKit_failed_removal [of "example_env\<lparr>rmdir := (\<lambda>p. Some (Error ''EACCES''))\<rparr>" example_kit
      "Error ''EACCES''" "driver_init\<lparr>needsReconfigure := False\<rparr>"]
  by (simp add: example_env_def driver_init_def)

text \<open>
  C10. \<open>setVariantOptions\<close> keeps the stored build type when \<open>buildType\<close> is the empty
  string or unset, keeps the stored settings and linkage when those are unset, and
  changes no other field of the driver.
\<close>

theorem setVariantOptions_defaults:
  "(opt_buildType opts = Some [] \<or> opt_buildType opts = None
      \<longrightarrow> buildType (setVariantOptions opts d) = buildType d) \<and>
   (opt_settings opts = None \<longrightarrow> configArgs (setVariantOptions opts d) = configArgs d) \<and>
   (opt_linkage opts = None \<longrightarrow> linkage (setVariantOptions opts d) = linkage d) \<and>
   needsReconfigure (setVariantOptions opts d) = needsReconfigure d \<and>
   targets (setVariantOptions opts d) = targets d \<and>
   kit (setVariantOptions opts d) = kit d"
  by (auto simp: setVariantOptions_def or_string_def or_value_def)

theorem setVariantOptions_defaults_witness:
  "opt_buildType \<lparr>description = ''release'', opt_buildType = Some [], opt_settings = None, opt_linkage = None\<rparr> = Some [] \<and>
   setVariantOptions \<lparr>description = ''release'', opt_buildType = Some [], opt_settings = None, opt_linkage = None\<rparr>
     (driver_init\<lparr>buildType := ''Release'', configArgs := [\<lparr>arg_key = ''FOO'', arg_value = ''bar''\<rparr>], linkage := Shared\<rparr>)
   = driver_init\<lparr>buildType := ''Release'', configArgs := [\<lparr>arg_key = ''FOO'', arg_value = ''bar''\<rparr>], linkage := Shared\<rparr>"
  using setVariantOptions_defaults
    [of "\<lparr>description = ''release'', opt_buildType = Some [], opt_settings = None, opt_linkage = None\<rparr>"
        "driver_init\<lparr>buildType := ''Release'', configArgs := [\<lparr>arg_key = ''FOO'', arg_value = ''bar''\<rparr>], linkage := Shared\<rparr>"]
  by (simp add: driver_init_def)

section \<open>build: the generator-specific arguments\<close>

lemma makefiles_or_ninja_empty: "\<not> makefiles_or_ninja []"
  by (simp add: makefiles_or_ninja_def str_includes_def)

lemma visual_studio_empty: "\<not> str_includes [] ''Visual Studio''"
  by (simp add: str_includes_def)

lemma build_first_invocation:
  "beforeConfigure env \<Longrightarrow>
   take 1 (snd (snd (build env target oc d))) = [(cmakePath env, build_args env d target)]"
  by (simp add: build_def Let_def split: sum.splits prod.splits option.splits outcome.splits)

text \<open>
  C3 (as the code has it). When the pre-build hook passes, \<open>build\<close> first invokes
  the tool with \<open>--build <binaryDir> --config <buildType> --target <target> --\<close> and
  then: \<open>-j <numJobs>\<close> when the generator name contains \<open>Unix Makefiles\<close>,
  \<open>MinGW Makefiles\<close> or \<open>Ninja\<close> and the target is not \<open>clean\<close>; otherwise
  \<open>/m /property:GenerateFullPaths=true\<close> when the name contains \<open>Visual Studio\<close>;
  otherwise (also when no generator is detected) nothing more.
\<close>

theorem build_generator_flags:
  assumes "beforeConfigure env"
  shows
    "(generatorName env = Some gen \<and> makefiles_or_ninja gen \<and> target \<noteq> ''clean'' \<longrightarrow>
        take 1 (snd (snd (build env target oc d))) =
          [(cmakePath env,
            [''--build'', binaryDir env, ''--config'', buildType d, ''--target'', target, ''--'',
             ''-j'', toString (numJobs env)])]) \<and>
     (generatorName env = Some gen \<and> str_includes gen ''Visual Studio'' \<and>
      (target = ''clean'' \<or> \<not> makefiles_or_ninja gen) \<longrightarrow>
        take 1 (snd (snd (build env target oc d))) =
          [(cmakePath env,
            [''--build'', binaryDir env, ''--config'', buildType d, ''--target'', target, ''--'',
             ''/m'', ''/property:GenerateFullPaths=true''])]) \<and>
     (generatorName env = None \<or>
      (generatorName env = Some gen \<and> \<not> str_includes gen ''Visual Studio'' \<and>
       (target = ''clean'' \<or> \<not> makefiles_or_ninja gen)) \<longrightarrow>
        take 1 (snd (snd (build env target oc d))) =
          [(cmakePath env,
            [''--build'', binaryDir env, ''--config'', buildType d, ''--target'', target, ''--''])])"
proof -
  have first: "take 1 (snd (snd (build env target oc d))) = [(cmakePath env, build_args env d target)]"
    using assms by (rule build_first_invocation)
  show ?thesis
    unfolding first
    using makefiles_or_ninja_empty visual_studio_empty
    by (auto simp: build_args_def generator_args_def)
qed

theorem build_generator_flags_witness:
  "beforeConfigure (example_env :: string env) \<and>
   generatorName (example_env :: string env) = Some ''Ninja'' \<and> makefiles_or_ninja ''Ninja'' \<and>
   take 1 (snd (snd (build (example_env :: string env) ''all'' True driver_init))) =
     [(''cmake'', [''--build'', ''/build'', ''--config'', ''Debug'', ''--target'', ''all'', ''--'', ''-j'', ''4''])]"
  using build_generator_flags [of example_env "''Ninja''" "''all''" True driver_init]
  by (simp add: example_env_def driver_init_def makefiles_or_ninja_def str_includes_def startsWith_def digit_char_def)

text \<open>
  C3 as stated fails for the target \<open>clean\<close>: with a Makefile generator the
  arguments of the build end at \<open>--\<close>, with no \<open>-j\<close>.
\<close>

theorem build_clean_counterexample:
  "snd (snd (build (example_env\<lparr>generatorName := Some ''Unix Makefiles''\<rparr>) ''clean'' True
       (driver_init :: string driver))) =
     [(''cmake'', [''--build'', ''/build'', ''--config'', ''Debug'', ''--target'', ''clean'', ''--'']),
      (''cmake'', [''--build'', ''/build'', ''--config'', ''Debug'', ''--target'', ''help''])]"
  by (simp add: build_def build_args_def generator_args_def makefiles_or_ninja_def str_includes_def
      startsWith_def example_env_def driver_init_def executeCommand_def execute_def run_handlers_def
      on_close_def exec_init_def refreshTargets_def refreshTargets_args_def parse_targets_def Let_def)

section \<open>configure: the arguments of the settings\<close>

text \<open>
  C2 on the code: with the setting \<open>{key: "FOO", value: "bar"}\<close> that \<open>cmakeify\<close>
  types as \<open>STRING\<close>, \<open>configure\<close> passes \<open>FOO:STRING=bar\<close>, without the \<open>-D\<close> that
  the build type and the compiler definitions next to it carry.
\<close>

theorem configure_setting_argument:
  "snd (snd (configure example_env True
       (driver_init\<lparr>configArgs := [\<lparr>arg_key = ''FOO'', arg_value = ''bar''\<rparr>], kit := Some example_kit\<rparr>))) =
     [(''cmake'', [''-GNinja'', ''FOO:STRING=bar'', ''-DCMAKE_BUILD_TYPE:STRING=Debug'',
                   ''-DCMAKE_CXX_COMPILER:FILEPATH=/usr/bin/g++'', ''-H/src'', ''-B/build'']),
      (''cmake'', [''--build'', ''/build'', ''--config'', ''Debug'', ''--target'', ''help''])]"
  by (simp add: configure_def configure_args_def setting_arg_def compiler_arg_def example_kit_def
      example_env_def driver_init_def executeCommand_def execute_def run_handlers_def
      on_close_def exec_init_def refreshTargets_def refreshTargets_args_def parse_targets_def Let_def)

section \<open>The needsReconfigure flag\<close>

lemma refreshTargets_flag:
  "needsReconfigure (fst (snd (refreshTargets env d))) = needsReconfigure d"
  by (simp add: refreshTargets_def Let_def split: sum.splits prod.splits option.splits outcome.splits)

lemma setKit_flag: "needsReconfigure (snd (setKit env k d))"
  by (simp add: setKit_def setBaseKit_def Let_def split: option.splits)

lemma configure_flag:
  "needsReconfigure (fst (snd (configure env oc d))) =
     (needsReconfigure d \<and> tool_exit_code env oc d \<noteq> Some 0)"
  by (simp add: configure_def tool_exit_code_def refreshTargets_def Let_def
      split: sum.splits prod.splits option.splits outcome.splits)

lemma configure_exit_code:
  "fst (configure env oc d) = Resolved c \<Longrightarrow>
     (c = - 1 \<and> \<not> beforeConfigure env) \<or> tool_exit_code env oc d = Some c"
  by (auto simp: configure_def tool_exit_code_def refreshTargets_def Let_def
      split: sum.splits prod.splits option.splits outcome.splits if_splits)

lemma cleanConfigure_flag:
  "needsReconfigure (fst (snd (cleanConfigure env0 env oc d))) =
     (needsReconfigure d \<and> \<not> configure_succeeds d (CleanConfigure env0 env oc))"
  by (auto simp: cleanConfigure_def Let_def configure_flag split: option.splits)

lemma build_flag:
  "needsReconfigure (fst (snd (build env target oc d))) = needsReconfigure d"
  by (simp add: build_def refreshTargets_def Let_def split: sum.splits prod.splits option.splits outcome.splits)

lemma step_flag:
  "needsReconfigure (step d op) =
     (is_setKit op \<or> (needsReconfigure d \<and> \<not> configure_succeeds d op))"
  by (cases op)
    (simp_all add: setKit_flag configure_flag cleanConfigure_flag build_flag setVariantOptions_def)

lemma run_operations_snoc:
  "run_operations d (ops @ [op]) = step (run_operations d ops) op"
  by (simp add: run_operations_def)

lemma run_operations_cleared:
  "\<not> needsReconfigure (run_operations d ops) \<Longrightarrow>
   \<not> needsReconfigure d \<or>
   (\<exists>pre op post. ops = pre @ op # post \<and> configure_succeeds (run_operations d pre) op)"
proof (induction ops rule: rev_induct)
  case Nil
  then show ?case by (simp add: run_operations_def)
next
  case (snoc op ops)
  show ?case
  proof (cases "needsReconfigure (run_operations d ops)")
    case True
    with snoc.prems have "configure_succeeds (run_operations d ops) op"
      by (simp add: run_operations_snoc step_flag)
    then have "\<exists>pre op' post. ops @ [op] = pre @ op' # post \<and> configure_succeeds (run_operations d pre) op'"
      by blast
    then show ?thesis by simp
  next
    case False
    with snoc.IH show ?thesis
      by (metis append_Cons append_assoc)
  qed
qed

text \<open>
  C5 (as the code has it). \<open>needsReconfigure\<close> is true in a new driver (also after
  \<open>create\<close>) and after every \<open>setKit\<close>, whether it succeeds or fails. Any other
  operation leaves the flag as it is, except a configure (or clean configure) whose
  external tool exits with code 0, which clears it; so over any sequence of
  operations the flag is false at the end only if it was false at the start or some
  configure in the sequence had exit code 0. A failing pre-configure hook makes
  \<open>configure\<close> return \<open>-1\<close> with the driver untouched, and a \<open>configure\<close> that returns
  a non-zero code leaves the flag unchanged: set when it was set before the call,
  clear when an earlier configure had cleared it.
\<close>

theorem needsReconfigure_protocol:
  "needsReconfigure (driver_init :: 'v driver) \<and>
   needsReconfigure (fst (snd (create (env :: 'v env)))) \<and>
   needsReconfigure (snd (setKit env k d)) \<and>
   needsReconfigure (step d op) =
     (is_setKit op \<or> (needsReconfigure d \<and> \<not> configure_succeeds d op)) \<and>
   (\<not> needsReconfigure (run_operations d ops) \<longrightarrow>
      \<not> needsReconfigure d \<or>
      (\<exists>pre op' post. ops = pre @ op' # post \<and> configure_succeeds (run_operations d pre) op')) \<and>
   (\<not> beforeConfigure env \<longrightarrow> configure env oc d = (Resolved (- 1), d, [])) \<and>
   (fst (configure env oc d) = Resolved c \<and> c \<noteq> 0 \<longrightarrow>
      needsReconfigure (fst (snd (configure env oc d))) = needsReconfigure d)"
proof -
  have init: "needsReconfigure (driver_init :: 'v driver)"
    by (simp add: driver_init_def)
  have created: "needsReconfigure (fst (snd (create env)))"
    using init by (simp add: create_def refreshTargets_flag)
  have abort: "\<not> beforeConfigure env \<longrightarrow> configure env oc d = (Resolved (- 1), d, [])"
    by (simp add: configure_def)
  have nonzero: "fst (configure env oc d) = Resolved c \<and> c \<noteq> 0 \<longrightarrow>
      needsReconfigure (fst (snd (configure env oc d))) = needsReconfigure d"
  proof
    assume a: "fst (configure env oc d) = Resolved c \<and> c \<noteq> 0"
    then have "tool_exit_code env oc d \<noteq> Some 0"
      using configure_exit_code [of env oc d c] by (auto simp: tool_exit_code_def)
    then show "needsReconfigure (fst (snd (configure env oc d))) = needsReconfigure d"
      by (simp add: configure_flag)
  qed
  from init created setKit_flag step_flag run_operations_cleared abort nonzero
  show ?thesis by blast
qed

lemmas run_simps = configure_def configure_args_def setting_arg_def compiler_arg_def example_kit_def
      example_env_def driver_init_def executeCommand_def execute_def run_handlers_def
      on_close_def exec_init_def refreshTargets_def refreshTargets_args_def parse_targets_def Let_def
      setKit_def setBaseKit_def run_operations_def failing_env_def tool_exit_code_def

theorem needsReconfigure_protocol_witness:
  "\<not> needsReconfigure (run_operations (driver_init :: string driver)
        [SetKit example_env example_kit, Configure example_env True]) \<and>
   needsReconfigure (driver_init :: string driver) \<and>
   configure_succeeds (run_operations driver_init [SetKit example_env example_kit]) (Configure example_env True) \<and>
   needsReconfigure (step (run_operations driver_init
        [SetKit example_env example_kit, Configure example_env True]) (SetKit example_env example_kit)) \<and>
   \<not> beforeConfigure (example_env\<lparr>beforeConfigure := False\<rparr>) \<and>
   configure (example_env\<lparr>beforeConfigure := False\<rparr>) True (driver_init :: string driver) = (Resolved (- 1), driver_init, []) \<and>
   fst (configure failing_env True (driver_init\<lparr>kit := Some example_kit\<rparr>)) = Resolved 1 \<and>
   needsReconfigure (fst (snd (configure failing_env True (driver_init\<lparr>kit := Some example_kit\<rparr>))))"
  using needsReconfigure_protocol [of example_env example_kit
      "run_operations driver_init [SetKit example_env example_kit, Configure example_env True]"
      "SetKit example_env example_kit"
      "[SetKit example_env example_kit, Configure example_env True]" True 1]
    needsReconfigure_protocol [of "example_env\<lparr>beforeConfigure := False\<rparr>" example_kit
      "driver_init" "SetKit example_env example_kit" "[]" True 1]
    needsReconfigure_protocol [of failing_env example_kit
      "driver_init\<lparr>kit := Some example_kit\<rparr>" "SetKit example_env example_kit" "[]" True 1]
  by (simp add: run_simps)

text \<open>
  C5 as stated fails where it says that a configure with a non-zero exit code leaves
  the flag set: after \<open>setKit\<close> and a configure with exit code 0 the flag is clear,
  and a second configure that returns 1 leaves it clear.
\<close>

theorem configure_nonzero_flag_clear_counterexample:
  "fst (configure failing_env True
         (run_operations (driver_init :: string driver)
            [SetKit example_env example_kit, Configure example_env True])) = Resolved 1 \<and>
   needsReconfigure (fst (snd (configure failing_env True
         (run_operations (driver_init :: string driver)
            [SetKit example_env example_kit, Configure example_env True])))) = False"
  by (simp add: run_simps)

section \<open>parseCache: lines that give no entry\<close>

lemma parse_lines_Cons:
  "parse_lines isTruthy st (line # rest) = parse_lines isTruthy (parse_line isTruthy st line) rest"
  by (simp add: parse_lines_def)


lemma typemap_Undefined:
  "typename \<notin> set [''BOOL'', ''STRING'', ''PATH'', ''FILEPATH'', ''INTERNAL'', ''UNINITIALIZED'', ''STATIC''] \<Longrightarrow>
   typename \<notin> set object_prototype_keys \<Longrightarrow> typemap typename = Undefined"
  by (simp add: typemap_def)

lemma parse_line_no_match:
  "\<not> startsWith line ''//'' \<Longrightarrow> match_entry line = None \<Longrightarrow>
   parse_line isTruthy st line = st\<lparr>reports := reports st @ [FailedToReadLine line]\<rparr>"
  by (simp add: parse_line_def)

lemma parse_line_empty_token:
  "\<not> startsWith line ''//'' \<Longrightarrow> match_entry line = Some (name, typename, valuestr) \<Longrightarrow>
   name = [] \<or> typename = [] \<Longrightarrow> parse_line isTruthy st line = st"
  by (auto simp: parse_line_def)


lemma parse_line_unknown_type:
  "\<not> startsWith line ''//'' \<Longrightarrow> match_entry line = Some (name, typename, valuestr) \<Longrightarrow>
   name \<noteq> [] \<Longrightarrow> typename \<noteq> [] \<Longrightarrow> \<not> (endsWith name ''-ADVANCED'' \<and> valuestr = ''1'') \<Longrightarrow>
   typemap typename = Undefined \<Longrightarrow>
   parse_line isTruthy st line = st\<lparr>docs_acc := [], reports := reports st @ [UnknownType name typename]\<rparr>"
  by (auto simp: parse_line_def Let_def)




lemma match_nocolon: "match_entry ''nocolon'' = None"
  by (simp add: match_entry_def startsWith_def)

lemma match_garbage: "match_entry ''BAR:GARBAGE=x'' = Some (''BAR'', ''GARBAGE'', ''x'')"
  by (simp add: match_entry_def startsWith_def)

lemma match_empty_name: "match_entry '':STRING=x'' = Some ([], ''STRING'', ''x'')"
  by (simp add: match_entry_def startsWith_def)

lemma garbage_not_inherited: "''GARBAGE'' \<notin> set object_prototype_keys"
  by (simp add: object_prototype_keys_def)

text \<open>
  C6 (as the code has it). Take a line of the loop that is not a \<open>//\<close> line. If it
  does not match \<open>name:type=value\<close>, one error is reported, nothing else changes, and
  the loop goes on with the next line. If it matches with an empty name or an empty
  type token, it is skipped with no report. If it matches with both non-empty, is
  not suppressed by the \<open>-ADVANCED\<close> rule, and its type token is neither one of the
  seven known types nor the name of a property that objects inherit, one error is
  reported, no entry is made, the documentation accumulator is reset, and the loop
  goes on.
\<close>

theorem parse_line_recoverable:
  assumes "\<not> startsWith line ''//''"
  shows
    "(match_entry line = None \<longrightarrow>
        parse_lines isTruthy st (line # rest) =
          parse_lines isTruthy (st\<lparr>reports := reports st @ [FailedToReadLine line]\<rparr>) rest) \<and>
     (match_entry line = Some (name, typename, valuestr) \<and> (name = [] \<or> typename = []) \<longrightarrow>
        parse_lines isTruthy st (line # rest) = parse_lines isTruthy st rest) \<and>
     (match_entry line = Some (name, typename, valuestr) \<and> name \<noteq> [] \<and> typename \<noteq> [] \<and>
      \<not> (endsWith name ''-ADVANCED'' \<and> valuestr = ''1'') \<and>
      typename \<notin> set [''BOOL'', ''STRING'', ''PATH'', ''FILEPATH'', ''INTERNAL'', ''UNINITIALIZED'', ''STATIC''] \<and>
      typename \<notin> set object_prototype_keys \<longrightarrow>
        parse_lines isTruthy st (line # rest) =
          parse_lines isTruthy (st\<lparr>docs_acc := [], reports := reports st @ [UnknownType name typename]\<rparr>) rest)"
proof (intro conjI impI)
  assume "match_entry line = None"
  with assms show "parse_lines isTruthy st (line # rest) =
      parse_lines isTruthy (st\<lparr>reports := reports st @ [FailedToReadLine line]\<rparr>) rest"
    by (simp add: parse_lines_Cons parse_line_no_match)
next
  assume "match_entry line = Some (name, typename, valuestr) \<and> (name = [] \<or> typename = [])"
  with assms show "parse_lines isTruthy st (line # rest) = parse_lines isTruthy st rest"
    by (simp add: parse_lines_Cons parse_line_empty_token)
next
  assume a: "match_entry line = Some (name, typename, valuestr) \<and> name \<noteq> [] \<and> typename \<noteq> [] \<and>
      \<not> (endsWith name ''-ADVANCED'' \<and> valuestr = ''1'') \<and>
      typename \<notin> set [''BOOL'', ''STRING'', ''PATH'', ''FILEPATH'', ''INTERNAL'', ''UNINITIALIZED'', ''STATIC''] \<and>
      typename \<notin> set object_prototype_keys"
  then have "typemap typename = Undefined"
    by (simp add: typemap_Undefined)
  with assms a have "parse_line isTruthy st line =
      st\<lparr>docs_acc := [], reports := reports st @ [UnknownType name typename]\<rparr>"
    by (intro parse_line_unknown_type) auto
  then show "parse_lines isTruthy st (line # rest) =
      parse_lines isTruthy (st\<lparr>docs_acc := [], reports := reports st @ [UnknownType name typename]\<rparr>) rest"
    by (simp add: parse_lines_Cons)
qed


theorem parse_line_recoverable_witness:
  "\<not> startsWith ''nocolon'' ''//'' \<and> match_entry ''nocolon'' = None \<and>
   parse_lines example_isTruthy parse_init [''nocolon'']
     = \<lparr>entries = [], docs_acc = [], reports = [FailedToReadLine ''nocolon'']\<rparr> \<and>
   match_entry '':STRING=x'' = Some ([], ''STRING'', ''x'') \<and>
   parse_lines example_isTruthy parse_init ['':STRING=x''] = parse_init \<and>
   match_entry ''BAR:GARBAGE=x'' = Some (''BAR'', ''GARBAGE'', ''x'') \<and>
   ''GARBAGE'' \<notin> set object_prototype_keys \<and>
   parse_lines example_isTruthy parse_init [''BAR:GARBAGE=x'']
     = \<lparr>entries = [], docs_acc = [], reports = [UnknownType ''BAR'' ''GARBAGE'']\<rparr>"
proof -
  have a: "parse_lines example_isTruthy parse_init [''nocolon'']
     = \<lparr>entries = [], docs_acc = [], reports = [FailedToReadLine ''nocolon'']\<rparr>"
    using parse_line_recoverable [of "''nocolon''" example_isTruthy parse_init "[]" "[]" "[]" "[]"]
      match_nocolon
    by (simp add: startsWith_def parse_lines_def parse_init_def)
  have b: "parse_lines example_isTruthy parse_init ['':STRING=x''] = parse_init"
    using parse_line_recoverable [of "'':STRING=x''" example_isTruthy parse_init "[]" "[]" "''STRING''" "''x''"]
      match_empty_name
    by (simp add: startsWith_def parse_lines_def)
  have c: "parse_lines example_isTruthy parse_init [''BAR:GARBAGE=x'']
     = \<lparr>entries = [], docs_acc = [], reports = [UnknownType ''BAR'' ''GARBAGE'']\<rparr>"
    using parse_line_recoverable [of "''BAR:GARBAGE=x''" example_isTruthy parse_init "[]" "''BAR''" "''GARBAGE''" "''x''"]
      match_garbage garbage_not_inherited
    by (simp add: startsWith_def endsWith_def parse_lines_def parse_init_def)
  show ?thesis
    using a b c match_nocolon match_garbage match_empty_name garbage_not_inherited
    by (simp add: startsWith_def)
qed

text \<open>
  C6 as stated fails for a line with an empty name: \<open>:STRING=x\<close> survives the
  filtering and does not have the form \<open>name:type=value\<close> with a non-empty name, yet
  \<open>parseCache\<close> reports nothing.
\<close>

theorem parseCache_empty_name_counterexample:
  "cache_lines '':STRING=x'' = ['':STRING=x''] \<and>
   match_entry '':STRING=x'' = Some ([], ''STRING'', ''x'') \<and>
   parseCache example_isTruthy '':STRING=x'' = ([], [])"
proof -
  have l: "cache_lines '':STRING=x'' = ['':STRING=x'']"
    by (simp add: cache_lines_def is_hash_comment_def is_space_def startsWith_def CR_def LF_def)
  have p: "parse_line example_isTruthy parse_init '':STRING=x'' = parse_init"
    by (simp add: parse_line_def match_empty_name startsWith_def)
  have "parseCache example_isTruthy '':STRING=x'' = (entries parse_init, reports parse_init)"
    by (simp add: l p parseCache_def parse_lines_def)
  then show ?thesis
    by (simp add: l match_empty_name parse_init_def)
qed

section \<open>parseCache: the documentation accumulator across a suppressed line\<close>















section \<open>ProcessRunner: lines across chunk boundaries\<close>

lemma split_on_nonempty: "split_on c xs \<noteq> []"
  by (induction xs) (auto split: list.splits)

lemma split_on_append:
  "split_on c (xs @ ys) =
     butlast (split_on c xs) @ [last (split_on c xs) @ hd (split_on c ys)] @ tl (split_on c ys)"
proof (induction xs)
  case Nil
  show ?case using split_on_nonempty [of c ys] by (cases "split_on c ys") auto
next
  case (Cons x xs)
  show ?case
  proof (cases "x = c")
    case True
    then show ?thesis using Cons split_on_nonempty [of c xs] by simp
  next
    case False
    obtain l ls where s: "split_on c xs = l # ls"
      using split_on_nonempty [of c xs] by (cases "split_on c xs") auto
    show ?thesis
    proof (cases ls)
      case Nil
      with False s Cons show ?thesis by simp
    next
      case (Cons l' ls')
      with False s Cons.IH show ?thesis by simp
    qed
  qed
qed

lemma endsWith_single: "endsWith l [c] = (l \<noteq> [] \<and> last l = c)"
proof (cases l rule: rev_cases)
  case Nil
  then show ?thesis by (simp add: endsWith_def)
next
  case (snoc ys y)
  then show ?thesis by (auto simp: endsWith_def)
qed

lemma strip_cr_last: "strip_cr l = (if l \<noteq> [] \<and> last l = CR then butlast l else l)"
  by (simp add: strip_cr_def endsWith_single substr_def butlast_conv_take)

lemma strip_cr_append:
  "\<not> endsWith acc [CR] \<Longrightarrow> strip_cr (acc @ l) = acc @ strip_cr l"
  by (auto simp: strip_cr_last endsWith_single butlast_append)

lemma drain_Cons:
  "drain acc (l # ls) out =
     (if ls = [] then (acc, [l], out) else ([], [last ls], out @ (acc @ l) # butlast ls))"
proof (induction ls arbitrary: acc l out)
  case Nil
  show ?case by simp
next
  case (Cons l' ls)
  show ?case using Cons [of "[]" l' "out @ [acc @ l]"] by simp
qed

lemma last_split_no_sep: "c \<notin> set (last (split_on c xs))"
proof (induction xs)
  case Nil
  show ?case by simp
next
  case (Cons x xs)
  then show ?case using split_on_nonempty [of c xs]
    by (cases "split_on c xs") (auto split: if_splits)
qed

lemma split_on_single_empty: "split_on c xs = [[]] \<Longrightarrow> xs = []"
  using split_on_nonempty [of c "tl xs"]
  by (cases xs) (auto split: if_splits list.splits)

lemma last_split_last:
  "last (split_on c xs) \<noteq> [] \<Longrightarrow> last (last (split_on c xs)) = last xs"
proof (induction xs)
  case Nil
  then show ?case by simp
next
  case (Cons x xs)
  then show ?case using split_on_nonempty [of c xs]
    by (cases "split_on c xs") (auto split: if_splits dest: split_on_single_empty)
qed

lemma last_split_endsWith:
  "\<not> endsWith xs [d] \<Longrightarrow> \<not> endsWith (last (split_on c xs)) [d]"
  using last_split_last [of c xs] by (auto simp: endsWith_single)


text \<open>
  One \<open>data\<close> event, when neither the pending line nor the chunk ends with a carriage
  return: the pending line is completed by the first fragment, every fragment but
  the last is reported, and the last one is pending afterwards.
\<close>

lemma stdout_on_data_step:
  assumes acc: "\<not> endsWith (line_acc st) [CR]" and chunk: "\<not> endsWith c [CR]"
  shows "line_acc (stdout_on_data True st c) = last ([line_acc st @ hd (split_on LF c)] @ tl (split_on LF c)) \<and>
         calls (stdout_on_data True st c) =
           calls st @ map Output (map strip_cr (butlast ([line_acc st @ hd (split_on LF c)] @ tl (split_on LF c)))) \<and>
         stderr_line_acc (stdout_on_data True st c) = stderr_line_acc st \<and>
         \<not> endsWith (line_acc (stdout_on_data True st c)) [CR]"
proof -
  obtain f fs where F: "split_on LF c = f # fs"
    using split_on_nonempty [of LF c] by (cases "split_on LF c") auto
  have lastF: "\<not> endsWith (last (f # fs)) [CR]"
    using last_split_endsWith [OF chunk, of LF] by (simp add: F)
  show ?thesis
  proof (cases fs)
    case Nil
    with lastF have f: "strip_cr f = f"
      by (simp add: strip_cr_def)
    from lastF Nil acc have "\<not> endsWith (line_acc st @ f) [CR]"
      by (cases "f = []") (simp_all add: endsWith_single)
    with Nil f show ?thesis
      by (simp add: stdout_on_data_def F Let_def)
  next
    case (Cons g gs)
    with lastF have l: "strip_cr (last fs) = last fs" and nl: "\<not> endsWith (last fs) [CR]"
      by (simp_all add: strip_cr_def)
    have d: "drain (line_acc st) (strip_cr f # map strip_cr fs) [] =
        ([], [last (map strip_cr fs)], (line_acc st @ strip_cr f) # butlast (map strip_cr fs))"
      using Cons by (simp add: drain_Cons del: drain.simps)
    have a: "strip_cr (line_acc st @ f) = line_acc st @ strip_cr f"
      using acc by (rule strip_cr_append)
    from Cons have ne: "fs \<noteq> []" by simp
    show ?thesis
      using ne l nl a
      by (simp add: stdout_on_data_def F Let_def d last_map map_butlast del: drain.simps)
  qed
qed

lemma feed_stdout:
  assumes "\<forall>c\<in>set chunks. \<not> endsWith c [CR]"
  shows "line_acc (foldl (on_data True) exec_init (map StdoutData chunks)) = last (split_on LF (concat chunks)) \<and>
         calls (foldl (on_data True) exec_init (map StdoutData chunks)) =
           map Output (map strip_cr (butlast (split_on LF (concat chunks)))) \<and>
         stderr_line_acc (foldl (on_data True) exec_init (map StdoutData chunks)) = [] \<and>
         \<not> endsWith (line_acc (foldl (on_data True) exec_init (map StdoutData chunks))) [CR]"
  using assms
proof (induction chunks rule: rev_induct)
  case Nil
  show ?case by (simp add: exec_init_def endsWith_def)
next
  case (snoc c chunks)
  define st where "st = foldl (on_data True) exec_init (map StdoutData chunks)"
  from snoc.prems have pre: "\<forall>c\<in>set chunks. \<not> endsWith c [CR]"
    and c: "\<not> endsWith c [CR]"
    by simp_all
  note IH0 = snoc.IH [OF pre, folded st_def]
  from IH0 have IH: "line_acc st = last (split_on LF (concat chunks))"
      "calls st = map Output (map strip_cr (butlast (split_on LF (concat chunks))))"
      "stderr_line_acc st = []" "\<not> endsWith (line_acc st) [CR]"
    by blast+
  have step: "foldl (on_data True) exec_init (map StdoutData (chunks @ [c])) = stdout_on_data True st c"
    by (simp add: st_def)
  have cc: "concat (chunks @ [c]) = concat chunks @ c"
    by simp
  define rest where "rest = [line_acc st @ hd (split_on LF c)] @ tl (split_on LF c)"
  have rest: "rest \<noteq> []"
    by (simp add: rest_def)
  from stdout_on_data_step [OF IH(4) c, folded rest_def]
  have S: "line_acc (stdout_on_data True st c) = last rest"
      "calls (stdout_on_data True st c) = calls st @ map Output (map strip_cr (butlast rest))"
      "stderr_line_acc (stdout_on_data True st c) = stderr_line_acc st"
      "\<not> endsWith (line_acc (stdout_on_data True st c)) [CR]"
    by blast+
  have sp: "split_on LF (concat chunks @ c) = butlast (split_on LF (concat chunks)) @ rest"
    by (simp add: split_on_append [of LF "concat chunks" c] IH(1) rest_def)
  have 1: "line_acc (stdout_on_data True st c) = last (split_on LF (concat chunks @ c))"
    using rest by (simp add: S(1) sp)
  have 2: "calls (stdout_on_data True st c) =
      map Output (map strip_cr (butlast (split_on LF (concat chunks @ c))))"
    using rest by (simp add: S(2) IH(2) sp butlast_append)
  have 3: "stderr_line_acc (stdout_on_data True st c) = []"
    by (simp add: S(3) IH(3))
  from 1 2 3 S(4) show ?case
    unfolding step cc by blast
qed


text \<open>
  When no chunk ends with a carriage return, the lines reported do not depend on where
  the chunks are cut: they are the lines of the whole text, each without the carriage
  return before its line feed, and the unterminated rest at \<open>close\<close> if there is one.
  For a text of newline-terminated lines, each line is reported once, in order.
\<close>

lemma stdout_lines_reassembled:
  assumes "\<forall>c\<in>set chunks. \<not> endsWith c [CR]"
  shows "stdout_lines chunks =
           map strip_cr (butlast (split_on LF (concat chunks))) @
           (if last (split_on LF (concat chunks)) = [] then [] else [last (split_on LF (concat chunks))])"
proof -
  define st where "st = foldl (on_data True) exec_init (map StdoutData chunks)"
  from feed_stdout [OF assms, folded st_def]
  have S: "line_acc st = last (split_on LF (concat chunks))"
      "calls st = map Output (map strip_cr (butlast (split_on LF (concat chunks))))"
      "stderr_line_acc st = []"
    by blast+
  have outs: "concat (map (\<lambda>c. case c of Output l \<Rightarrow> [l] | ErrorLine l \<Rightarrow> []) (map Output ls)) = ls" for ls
    by (induction ls) simp_all
  have "fst (run_handlers True \<lparr>events = map StdoutData chunks, exit_code = 0\<rparr>) =
      map Output (map strip_cr (butlast (split_on LF (concat chunks))) @
           (if last (split_on LF (concat chunks)) = [] then [] else [last (split_on LF (concat chunks))]))"
    by (simp add: run_handlers_def on_close_def Let_def S [unfolded st_def])
  then show ?thesis
    unfolding stdout_lines_def by (simp only: outs)
qed

lemma split_on_line: "c \<notin> set l \<Longrightarrow> split_on c (l @ c # rest) = l # split_on c rest"
  by (induction l) auto

lemma split_on_lines:
  "\<forall>l\<in>set ls. c \<notin> set l \<Longrightarrow> split_on c (concat (map (\<lambda>l. l @ [c]) ls)) = ls @ [[]]"
  by (induction ls) (simp_all add: split_on_line)

lemma stdout_lines_newline_terminated:
  assumes "\<forall>c\<in>set chunks. \<not> endsWith c [CR]"
    and "\<forall>l\<in>set ls. LF \<notin> set l"
    and "concat chunks = concat (map (\<lambda>l. l @ [LF]) ls)"
  shows "stdout_lines chunks = map strip_cr ls"
  using stdout_lines_reassembled [OF assms(1)] split_on_lines [OF assms(2)]
  by (simp add: assms(3))


text \<open>
  C1 on the code: the handler strips a trailing carriage return from the last
  fragment of a chunk too. The line \<open>a\rb\<close> arrives whole when its chunk is not cut,
  and as \<open>ab\<close> when the chunk boundary falls right after the carriage return.
\<close>

theorem stdout_lines_split_after_cr:
  "stdout_lines [''a'' @ [CR] @ ''b'' @ [LF]] = [''a'' @ [CR] @ ''b''] \<and>
   stdout_lines [''a'' @ [CR], ''b'' @ [LF]] = [''ab'']"
  by (simp add: stdout_lines_def run_handlers_def on_close_def exec_init_def stdout_on_data_def
      strip_cr_def endsWith_def substr_def CR_def LF_def Let_def)

end
